theory Spec2Isabelle
  imports Complex_Main
begin

section \<open>JavaScript numbers\<close>

text \<open>
  The components compute with JavaScript numbers. A number is modelled as a real, or one
  of the three special values a division can produce: the two infinities and NaN. The
  rounding error of doubles and the sign of zero are not modelled (every divisor in the
  code is a measured width or a positive constant, which is never a negative zero).
\<close>

datatype number = Num real | PosInf | NegInf | NaN

fun js_neg :: "number \<Rightarrow> number" where
  "js_neg (Num a) = Num (- a)"
| "js_neg PosInf = NegInf"
| "js_neg NegInf = PosInf"
| "js_neg NaN = NaN"

fun js_add :: "number \<Rightarrow> number \<Rightarrow> number" where
  "js_add NaN _ = NaN"
| "js_add _ NaN = NaN"
| "js_add (Num a) (Num b) = Num (a + b)"
| "js_add PosInf NegInf = NaN"
| "js_add NegInf PosInf = NaN"
| "js_add PosInf _ = PosInf"
| "js_add _ PosInf = PosInf"
| "js_add NegInf _ = NegInf"
| "js_add _ NegInf = NegInf"

definition js_sub :: "number \<Rightarrow> number \<Rightarrow> number" where
  "js_sub a b = js_add a (js_neg b)"

fun js_mul :: "number \<Rightarrow> number \<Rightarrow> number" where
  "js_mul NaN _ = NaN"
| "js_mul _ NaN = NaN"
| "js_mul (Num a) (Num b) = Num (a * b)"
| "js_mul (Num a) PosInf = (if a = 0 then NaN else if 0 < a then PosInf else NegInf)"
| "js_mul (Num a) NegInf = (if a = 0 then NaN else if 0 < a then NegInf else PosInf)"
| "js_mul PosInf (Num b) = (if b = 0 then NaN else if 0 < b then PosInf else NegInf)"
| "js_mul NegInf (Num b) = (if b = 0 then NaN else if 0 < b then NegInf else PosInf)"
| "js_mul PosInf PosInf = PosInf"
| "js_mul PosInf NegInf = NegInf"
| "js_mul NegInf PosInf = NegInf"
| "js_mul NegInf NegInf = PosInf"

fun js_div :: "number \<Rightarrow> number \<Rightarrow> number" where
  "js_div NaN _ = NaN"
| "js_div _ NaN = NaN"
| "js_div (Num a) (Num b) =
     (if b \<noteq> 0 then Num (a / b)
      else if a = 0 then NaN
      else if 0 < a then PosInf else NegInf)"
| "js_div (Num a) PosInf = Num 0"
| "js_div (Num a) NegInf = Num 0"
| "js_div PosInf (Num b) = (if 0 \<le> b then PosInf else NegInf)"
| "js_div NegInf (Num b) = (if 0 \<le> b then NegInf else PosInf)"
| "js_div _ _ = NaN"

text \<open>The comparisons \<^verbatim>\<open><\<close>, \<^verbatim>\<open><=\<close>, \<^verbatim>\<open>>\<close>, \<^verbatim>\<open>>=\<close>: false whenever an operand is NaN.\<close>

fun js_lt :: "number \<Rightarrow> number \<Rightarrow> bool" where
  "js_lt NaN _ = False"
| "js_lt _ NaN = False"
| "js_lt (Num a) (Num b) = (a < b)"
| "js_lt _ NegInf = False"
| "js_lt PosInf _ = False"
| "js_lt _ _ = True"

fun js_le :: "number \<Rightarrow> number \<Rightarrow> bool" where
  "js_le NaN _ = False"
| "js_le _ NaN = False"
| "js_le (Num a) (Num b) = (a \<le> b)"
| "js_le NegInf _ = True"
| "js_le _ PosInf = True"
| "js_le _ _ = False"

definition js_gt :: "number \<Rightarrow> number \<Rightarrow> bool" where
  "js_gt a b = js_lt b a"

definition js_ge :: "number \<Rightarrow> number \<Rightarrow> bool" where
  "js_ge a b = js_le b a"

text \<open>Strict equality \<^verbatim>\<open>===\<close> on numbers: NaN is not equal to anything, itself included.\<close>

fun js_strict_eq :: "number \<Rightarrow> number \<Rightarrow> bool" where
  "js_strict_eq NaN _ = False"
| "js_strict_eq _ NaN = False"
| "js_strict_eq a b = (a = b)"

text \<open>\<^verbatim>\<open>Math.max\<close> and \<^verbatim>\<open>Math.min\<close> of two numbers, and \<^verbatim>\<open>Math.round\<close> (half-way cases go
  up: \<open>floor (x + 0.5)\<close>).\<close>

fun js_max :: "number \<Rightarrow> number \<Rightarrow> number" where
  "js_max NaN _ = NaN"
| "js_max _ NaN = NaN"
| "js_max (Num a) (Num b) = Num (max a b)"
| "js_max PosInf _ = PosInf"
| "js_max _ PosInf = PosInf"
| "js_max NegInf b = b"
| "js_max a NegInf = a"

fun js_min :: "number \<Rightarrow> number \<Rightarrow> number" where
  "js_min NaN _ = NaN"
| "js_min _ NaN = NaN"
| "js_min (Num a) (Num b) = Num (min a b)"
| "js_min NegInf _ = NegInf"
| "js_min _ NegInf = NegInf"
| "js_min PosInf b = b"
| "js_min a PosInf = a"

fun js_round :: "number \<Rightarrow> number" where
  "js_round (Num a) = Num (of_int \<lfloor>a + 1 / 2\<rfloor>)"
| "js_round a = a"

text \<open>\<^verbatim>\<open>Math.floor\<close>, \<^verbatim>\<open>Math.ceil\<close>, and the remainder \<^verbatim>\<open>%\<close>, which has the sign of the
  dividend.\<close>

fun js_floor :: "number \<Rightarrow> number" where
  "js_floor (Num a) = Num (of_int \<lfloor>a\<rfloor>)"
| "js_floor a = a"

fun js_ceil :: "number \<Rightarrow> number" where
  "js_ceil (Num a) = Num (of_int \<lceil>a\<rceil>)"
| "js_ceil a = a"

fun js_rem :: "number \<Rightarrow> number \<Rightarrow> number" where
  "js_rem (Num a) (Num b) =
     (if b = 0 then NaN
      else Num (a - b * of_int (if 0 \<le> a / b then \<lfloor>a / b\<rfloor> else \<lceil>a / b\<rceil>)))"
| "js_rem (Num a) PosInf = Num a"
| "js_rem (Num a) NegInf = Num a"
| "js_rem _ _ = NaN"

section \<open>utils.ts\<close>

record SuperTabsConfig =
  transitionDuration :: real
  shortSwipeDuration :: real
  nativeSmoothScroll :: bool
  debug :: bool
  lazyLoad :: bool
  unloadWhenInvisible :: bool

text \<open>
  The options the modelled code reads. \<^verbatim>\<open>DEFAULT_CONFIG\<close> leaves \<^verbatim>\<open>nativeSmoothScroll\<close>
  undefined, which every test of it treats as false.
\<close>

definition DEFAULT_CONFIG :: SuperTabsConfig where
  "DEFAULT_CONFIG =
     \<lparr> transitionDuration = 150, shortSwipeDuration = 300, nativeSmoothScroll = False,
       debug = False, lazyLoad = False, unloadWhenInvisible = False \<rparr>"

text \<open>\<^verbatim>\<open>easeInOutCubic\<close>, as utils.ts writes it.\<close>

definition easeInOutCubic :: "real \<Rightarrow> real" where
  "easeInOutCubic t =
     (if t < 1 / 2 then 4 * t * t * t else (t - 1) * (2 * t - 2) * (2 * t - 2) + 1)"

text \<open>The curve as the specification writes it: \<open>t < 0.5 ? 4t\<^sup>3 : 1 - (-2t+2)\<^sup>3 / 2\<close>.\<close>

definition spec_easeInOutCubic :: "real \<Rightarrow> real" where
  "spec_easeInOutCubic t = (if t < 1 / 2 then 4 * t ^ 3 else 1 - (- 2 * t + 2) ^ 3 / 2)"

text \<open>The two properties of a DOM element that \<^verbatim>\<open>getNormalizedScrollX\<close> reads.\<close>

record element =
  el_scrollWidth :: real
  el_scrollLeft :: real

definition getNormalizedScrollX :: "element \<Rightarrow> real \<Rightarrow> real \<Rightarrow> real" where
  "getNormalizedScrollX el width delta =
     max 0 (min (el_scrollWidth el - width) (el_scrollLeft el + delta))"

text \<open>
  \<^verbatim>\<open>debugLog\<close>: a line goes to the console only when a configuration is there and its
  \<^verbatim>\<open>debug\<close> option is set. A line is the tag and the first value logged.
\<close>

definition debugLog ::
  "SuperTabsConfig option \<Rightarrow> string \<Rightarrow> string \<Rightarrow> (string \<times> string) list \<Rightarrow> (string \<times> string) list" where
  "debugLog config tag val console =
     (case config of
        None \<Rightarrow> console
      | Some c \<Rightarrow> if debug c then console @ [(tag, val)] else console)"

text \<open>
  \<^verbatim>\<open>pointerCoord\<close>: the first changed touch of a touch event, else the page coordinates
  of a mouse event, else the origin.
\<close>

record STCoord =
  coord_x :: real
  coord_y :: real



section \<open>The content pane: \<^verbatim>\<open>SuperTabsContainerComponent\<close>\<close>

text \<open>
  The state of the component is a record of its fields. The host element is outside the
  program: \<open>el\<close> holds what the element reports when a handler reads it (its scroll
  offset and the width of its bounding rectangle), and the scroll requests the component
  makes are collected, in order, in \<open>scrolls\<close>. The events the component emits are
  collected in \<open>activeTabIndexChange\<close> and \<open>selectedTabIndexChange\<close>, the lines it
  prints in \<open>c_console\<close>. An access through an undefined \<^verbatim>\<open>config\<close> or
  \<^verbatim>\<open>initialCoords\<close> is a \<open>TypeError\<close>.
\<close>

datatype error = TypeError

record tab =
  loaded :: bool
  visible :: bool

record hostElement =
  scrollLeft :: real
  rectWidth :: real

datatype scrollCmd =
    Scroll number
  | ScrollEl number bool real
  | ScrollTabTop number bool real

record SuperTabsContainerComponent =
  el :: hostElement
  c_config :: "SuperTabsConfig option"
  swipeEnabled :: bool
  autoScrollTop :: bool
  tabs :: "tab list"
  initialCoords :: "STCoord option"
  lastPosX :: "real option"
  isDragging :: bool
  initialTimestamp :: "real option"
  c_activeTabIndex :: "number option"
  c_selectedTabIndex :: "number option"
  scrollWidth :: real
  width :: real
  activeTabIndexChange :: "number list"
  selectedTabIndexChange :: "number list"
  scrolls :: "scrollCmd list"
  c_console :: "(string \<times> string) list"

definition container_debug ::
  "string \<Rightarrow> SuperTabsContainerComponent \<Rightarrow> SuperTabsContainerComponent" where
  "container_debug val s = s\<lparr> c_console := debugLog (c_config s) ''container'' val (c_console s) \<rparr>"

definition updateWidth :: "SuperTabsContainerComponent \<Rightarrow> SuperTabsContainerComponent" where
  "updateWidth s = s\<lparr> width := of_int \<lfloor>rectWidth (el s) * 10000 + 1 / 2\<rfloor> / 10000 \<rparr>"

definition positionToIndex :: "SuperTabsContainerComponent \<Rightarrow> number \<Rightarrow> number" where
  "positionToIndex s scrollX = (let tabWidth = Num (width s) in js_div scrollX tabWidth)"

definition indexToPosition :: "SuperTabsContainerComponent \<Rightarrow> number \<Rightarrow> number" where
  "indexToPosition s tabIndex =
     js_div (js_round (js_mul (js_mul tabIndex (Num (width s))) (Num 10000))) (Num 10000)"

definition calcSelectedTab :: "SuperTabsContainerComponent \<Rightarrow> number" where
  "calcSelectedTab s =
     (let scrollX = js_max (Num 0) (js_min (Num (scrollWidth s - width s)) (Num (scrollLeft (el s))))
      in positionToIndex s scrollX)"

definition normalizeSelectedTab :: "SuperTabsContainerComponent \<Rightarrow> number \<Rightarrow> number" where
  "normalizeSelectedTab s idx =
     (let scrollX = js_max (Num 0) (js_min (Num (scrollWidth s - width s)) (indexToPosition s idx))
      in js_round (js_div scrollX (Num (width s))))"

text \<open>
  \<^verbatim>\<open>lazyLoadTabs\<close>. The \<^verbatim>\<open>for\<close> loop over the tabs, with its running \<^verbatim>\<open>index\<close>, is
  \<open>lazyLoadLoop\<close>.
\<close>

fun lazyLoadLoop :: "bool \<Rightarrow> number \<Rightarrow> number \<Rightarrow> nat \<Rightarrow> tab list \<Rightarrow> tab list" where
  "lazyLoadLoop unload mn mx i [] = []"
| "lazyLoadLoop unload mn mx i (t # rest) =
     (let v = (js_ge (Num (real i)) mn \<and> js_le (Num (real i)) mx);
          t' = t\<lparr> visible := v, loaded := (v \<or> (if unload then False else loaded t)) \<rparr>
      in t' # lazyLoadLoop unload mn mx (Suc i) rest)"

definition lazyLoadTabs :: "SuperTabsContainerComponent \<Rightarrow> SuperTabsContainerComponent" where
  "lazyLoadTabs s =
     (case c_activeTabIndex s of
        None \<Rightarrow> container_debug ''lazyLoadTabs'' s
      | Some activeTab \<Rightarrow>
          (case c_config s of
             None \<Rightarrow> container_debug ''lazyLoadTabs'' s
           | Some cfg \<Rightarrow>
               if \<not> lazyLoad cfg
               then s\<lparr> tabs := map (\<lambda>t. t\<lparr> loaded := True, visible := True \<rparr>) (tabs s) \<rparr>
               else s\<lparr> tabs := lazyLoadLoop (unloadWhenInvisible cfg)
                                  (js_sub activeTab (Num 1)) (js_add activeTab (Num 1)) 0 (tabs s) \<rparr>))"

definition moveContainer ::
  "number \<Rightarrow> bool \<Rightarrow> SuperTabsContainerComponent \<Rightarrow> error + SuperTabsContainerComponent" where
  "moveContainer scrollX animate s =
     (if animate
      then (case c_config s of
              None \<Rightarrow> Inl TypeError
            | Some cfg \<Rightarrow>
                Inr (s\<lparr> scrolls := scrolls s @
                          [ScrollEl scrollX (nativeSmoothScroll cfg) (transitionDuration cfg)] \<rparr>))
      else Inr (s\<lparr> scrolls := scrolls s @ [Scroll scrollX] \<rparr>))"

definition moveContainerByIndex ::
  "number \<Rightarrow> bool \<Rightarrow> SuperTabsContainerComponent \<Rightarrow> error + SuperTabsContainerComponent" where
  "moveContainerByIndex idx animate s =
     (let scrollX = indexToPosition s idx
      in if js_strict_eq scrollX (Num 0) \<and> js_gt idx (Num 0)
         then Inr s
         else moveContainer scrollX animate s)"

text \<open>
  \<^verbatim>\<open>tabs[this._activeTabIndex]\<close>: an array has an element only at a whole index within
  its length.
\<close>

definition array_get :: "'a list \<Rightarrow> number \<Rightarrow> 'a option" where
  "array_get xs i =
     (case i of
        Num r \<Rightarrow>
          if r = of_int \<lfloor>r\<rfloor> \<and> 0 \<le> r \<and> r < real (length xs)
          then Some (xs ! nat \<lfloor>r\<rfloor>) else None
      | _ \<Rightarrow> None)"

text \<open>
  \<^verbatim>\<open>scrollToTop\<close> asks the active tab for its scrollable element and scrolls it to the
  top in a queued callback; the request is recorded as \<open>ScrollTabTop\<close>. A missing
  configuration fails inside that callback only, so the caller goes on.
\<close>

definition scrollToTop :: "SuperTabsContainerComponent \<Rightarrow> SuperTabsContainerComponent" where
  "scrollToTop s =
     (case c_activeTabIndex s of
        None \<Rightarrow> container_debug ''activeTabIndex or tabs was undefined'' s
      | Some a \<Rightarrow>
          (case array_get (tabs s) a of
             None \<Rightarrow> container_debug ''Current active tab was undefined in scrollToTop'' s
           | Some current \<Rightarrow>
               (case c_config s of
                  None \<Rightarrow> s
                | Some cfg \<Rightarrow>
                    s\<lparr> scrolls := scrolls s @
                         [ScrollTabTop a (nativeSmoothScroll cfg) (transitionDuration cfg)] \<rparr>)))"

definition updateActiveTabIndex ::
  "number \<Rightarrow> bool \<Rightarrow> SuperTabsContainerComponent \<Rightarrow> error + SuperTabsContainerComponent" where
  "updateActiveTabIndex idx emit s =
     (let s1 = container_debug ''updateActiveTabIndex'' s;
          s2 = s1\<lparr> c_activeTabIndex := Some idx \<rparr>;
          s3 = (if emit then s2\<lparr> activeTabIndexChange := activeTabIndexChange s2 @ [idx] \<rparr> else s2)
      in case c_config s3 of
           None \<Rightarrow> Inl TypeError
         | Some cfg \<Rightarrow> Inr (if lazyLoad cfg then lazyLoadTabs s3 else s3))"

definition updateSelectedTabIndex ::
  "number \<Rightarrow> SuperTabsContainerComponent \<Rightarrow> SuperTabsContainerComponent" where
  "updateSelectedTabIndex idx s =
     (if (case c_selectedTabIndex s of None \<Rightarrow> False | Some cur \<Rightarrow> js_strict_eq idx cur)
      then s
      else s\<lparr> c_selectedTabIndex := Some idx,
              selectedTabIndexChange := selectedTabIndexChange s @ [idx] \<rparr>)"

definition setActiveTabIndex ::
  "number \<Rightarrow> bool \<Rightarrow> bool \<Rightarrow> SuperTabsContainerComponent \<Rightarrow> error + SuperTabsContainerComponent" where
  "setActiveTabIndex idx moveCont animate s =
     (let s1 = container_debug ''setActiveTabIndex'' s;
          same = (case c_activeTabIndex s1 of None \<Rightarrow> False | Some a \<Rightarrow> js_strict_eq a idx)
      in if same \<and> \<not> autoScrollTop s1 then Inr s1
         else
           let s2 = (if same then scrollToTop s1 else s1)
           in case (if moveCont then moveContainerByIndex idx animate s2 else Inr s2) of
                Inl e \<Rightarrow> Inl e
              | Inr s3 \<Rightarrow> updateActiveTabIndex idx False s3)"

text \<open>
  JavaScript numbers are IEEE doubles: an addition, subtraction, multiplication or
  division returns the double nearest to the exact result, while \<^verbatim>\<open>Math.max\<close>,
  \<^verbatim>\<open>Math.min\<close>, \<^verbatim>\<open>Math.round\<close> and the comparisons are exact. The four conversions
  above compute over the reals. The end of a drag depends on the rounding, so the
  conversions are given once more with the result of every arithmetic operation passed
  through a rounding function \<open>fl\<close>; with the identity for \<open>fl\<close> they are the conversions
  above. \<open>rounds_like_double\<close> is what is used of round-to-nearest: a relative error of at
  most one part in \<open>2 ^ 53\<close>, or, for a result below the normal range, an absolute error of
  at most half the smallest double, \<open>1 / 2 ^ 1075\<close>. Round-to-nearest has this error on every
  result below the overflow threshold; the numbers at the end of a drag stay far below it.
\<close>

definition rounded :: "(real \<Rightarrow> real) \<Rightarrow> number \<Rightarrow> number" where
  "rounded fl v = (case v of Num r \<Rightarrow> Num (fl r) | _ \<Rightarrow> v)"


definition positionToIndex_fl ::
  "(real \<Rightarrow> real) \<Rightarrow> SuperTabsContainerComponent \<Rightarrow> number \<Rightarrow> number" where
  "positionToIndex_fl fl s scrollX =
     (let tabWidth = Num (width s) in rounded fl (js_div scrollX tabWidth))"

definition indexToPosition_fl ::
  "(real \<Rightarrow> real) \<Rightarrow> SuperTabsContainerComponent \<Rightarrow> number \<Rightarrow> number" where
  "indexToPosition_fl fl s tabIndex =
     rounded fl
       (js_div (js_round (rounded fl (js_mul (rounded fl (js_mul tabIndex (Num (width s))))
                                            (Num 10000))))
               (Num 10000))"

definition calcSelectedTab_fl ::
  "(real \<Rightarrow> real) \<Rightarrow> SuperTabsContainerComponent \<Rightarrow> number" where
  "calcSelectedTab_fl fl s =
     (let scrollX = js_max (Num 0) (js_min (Num (fl (scrollWidth s - width s)))
                                           (Num (scrollLeft (el s))))
      in positionToIndex_fl fl s scrollX)"

definition normalizeSelectedTab_fl ::
  "(real \<Rightarrow> real) \<Rightarrow> SuperTabsContainerComponent \<Rightarrow> number \<Rightarrow> number" where
  "normalizeSelectedTab_fl fl s idx =
     (let scrollX = js_max (Num 0) (js_min (Num (fl (scrollWidth s - width s)))
                                           (indexToPosition_fl fl s idx))
      in js_round (rounded fl (js_div scrollX (Num (width s)))))"

definition moveContainerByIndex_fl ::
  "(real \<Rightarrow> real) \<Rightarrow> number \<Rightarrow> bool \<Rightarrow> SuperTabsContainerComponent
     \<Rightarrow> error + SuperTabsContainerComponent" where
  "moveContainerByIndex_fl fl idx animate s =
     (let scrollX = indexToPosition_fl fl s idx
      in if js_strict_eq scrollX (Num 0) \<and> js_gt idx (Num 0)
         then Inr s
         else moveContainer scrollX animate s)"


text \<open>The component as its field initialisers leave it, on a given host element.\<close>

definition newContainer :: "hostElement \<Rightarrow> SuperTabsContainerComponent" where
  "newContainer host =
     \<lparr> el = host, c_config = None, swipeEnabled = True, autoScrollTop = False, tabs = [],
       initialCoords = None, lastPosX = None, isDragging = False, initialTimestamp = None,
       c_activeTabIndex = None, c_selectedTabIndex = None, scrollWidth = 0, width = 0,
       activeTabIndexChange = [], selectedTabIndexChange = [], scrolls = [], c_console = [] \<rparr>"

text \<open>
  Two properties of the values \<^verbatim>\<open>selectedTabIndexChange\<close> has emitted, in order: no two
  in a row are equal by \<^verbatim>\<open>===\<close>; and the last value emitted is the stored one.
\<close>

fun no_repeat :: "number list \<Rightarrow> bool" where
  "no_repeat (a # b # rest) = (\<not> js_strict_eq a b \<and> no_repeat (b # rest))"
| "no_repeat _ = True"

definition emitted_is_stored :: "SuperTabsContainerComponent \<Rightarrow> bool" where
  "emitted_is_stored s =
     (case c_selectedTabIndex s of
        None \<Rightarrow> selectedTabIndexChange s = []
      | Some cur \<Rightarrow> selectedTabIndexChange s \<noteq> [] \<and> last (selectedTabIndexChange s) = cur)"

section \<open>The button bar: \<^verbatim>\<open>SuperTabsToolbarComponent\<close>\<close>

text \<open>
  The toolbar holds its buttons (each with the offset and width its element reports, and
  its \<^verbatim>\<open>active\<close> flag), the index of the active tab, the position and width of the
  indicator, and references to three elements: the active button (kept as its place in
  \<open>buttons\<close>, which no function here changes in length), the indicator (its three style
  properties) and the scrolling container of the buttons (what it reports). The scroll
  requests on that container are collected in \<open>tb_scrolls\<close>, the lines printed in
  \<open>tb_console\<close>.
\<close>

record SuperTabButton =
  btn_offsetLeft :: real
  btn_clientWidth :: real
  btn_active :: bool

record indicatorStyle =
  position_x :: "number option"
  scale_x :: "number option"
  transition_duration :: "real option"

record buttonsContainer =
  bc_clientWidth :: real
  bc_scrollLeft :: real

record SuperTabsToolbarComponent =
  tb_config :: "SuperTabsConfig option"
  showIndicator :: bool
  scrollable :: bool
  buttons :: "SuperTabButton list"
  indicatorPosition :: "number option"
  indicatorWidth :: "number option"
  activeButton :: "nat option"
  tb_activeTabIndex :: number
  indicatorEl :: "indicatorStyle option"
  buttonsContainerEl :: "buttonsContainer option"
  tb_isDragging :: "bool option"
  tb_scrolls :: "scrollCmd list"
  tb_console :: "(string \<times> string) list"

definition toolbar_debug ::
  "string \<Rightarrow> SuperTabsToolbarComponent \<Rightarrow> SuperTabsToolbarComponent" where
  "toolbar_debug val tb = tb\<lparr> tb_console := debugLog (tb_config tb) ''toolbar'' val (tb_console tb) \<rparr>"

text \<open>The place in an array of length \<open>n\<close> that an index names, if it names one.\<close>

definition array_index :: "nat \<Rightarrow> number \<Rightarrow> nat option" where
  "array_index n i =
     (case i of
        Num r \<Rightarrow> if r = of_int \<lfloor>r\<rfloor> \<and> 0 \<le> r \<and> r < real n then Some (nat \<lfloor>r\<rfloor>) else None
      | _ \<Rightarrow> None)"

definition set_active :: "bool \<Rightarrow> nat \<Rightarrow> SuperTabButton list \<Rightarrow> SuperTabButton list" where
  "set_active v i bs = (if i < length bs then bs[i := (bs ! i)\<lparr> btn_active := v \<rparr>] else bs)"

text \<open>\<^verbatim>\<open>markButtonActive(button)\<close>; the argument is the place of the button, or nothing when
  \<^verbatim>\<open>this.buttons[index]\<close> is undefined.\<close>

definition markButtonActive ::
  "nat option \<Rightarrow> SuperTabsToolbarComponent \<Rightarrow> SuperTabsToolbarComponent" where
  "markButtonActive button tb =
     (case button of
        None \<Rightarrow> toolbar_debug ''markButtonActive'' tb
      | Some i \<Rightarrow>
          let bs = (case activeButton tb of
                      None \<Rightarrow> buttons tb
                    | Some j \<Rightarrow> set_active False j (buttons tb))
          in tb\<lparr> buttons := set_active True i bs, activeButton := Some i \<rparr>)"

text \<open>The toolbar's own \<^verbatim>\<open>moveContainer\<close>.\<close>

definition toolbar_moveContainer ::
  "number \<Rightarrow> bool \<Rightarrow> SuperTabsToolbarComponent \<Rightarrow> error + SuperTabsToolbarComponent" where
  "toolbar_moveContainer scrollX animate tb =
     (case buttonsContainerEl tb of
        None \<Rightarrow>
          Inr (toolbar_debug ''moveContainer called before this.buttonsContainerEl was defined'' tb)
      | Some bc \<Rightarrow>
          (case tb_config tb of
             None \<Rightarrow> Inl TypeError
           | Some cfg \<Rightarrow>
               Inr (tb\<lparr> tb_scrolls := tb_scrolls tb @
                         [ScrollEl scrollX (nativeSmoothScroll cfg)
                            (if animate then transitionDuration cfg else 0)] \<rparr>)))"

text \<open>
  \<^verbatim>\<open>adjustContainerScroll\<close>. An indicator position or width that is still undefined
  becomes NaN in the arithmetic.
\<close>

definition adjustContainerScroll ::
  "bool \<Rightarrow> SuperTabsToolbarComponent \<Rightarrow> error + SuperTabsToolbarComponent" where
  "adjustContainerScroll animate tb =
     (case buttonsContainerEl tb of
        None \<Rightarrow>
          Inr (toolbar_debug
                 ''adjustContainerScroll called before this.buttonsContainerEl was defined'' tb)
      | Some bc \<Rightarrow>
          let ip = (case indicatorPosition tb of None \<Rightarrow> NaN | Some v \<Rightarrow> v);
              iw = (case indicatorWidth tb of None \<Rightarrow> NaN | Some v \<Rightarrow> v);
              mw = Num (bc_clientWidth bc);
              sp = Num (bc_scrollLeft bc);
              centerDelta = js_sub (js_div mw (Num 2)) (js_div iw (Num 2));
              a = js_floor (js_add (js_add ip iw) centerDelta);
              b = js_floor (js_sub ip centerDelta);
              c = js_floor (js_add mw sp);
              scrollTo = (\<lambda>pos. if \<not> animate
                                then Inr (tb\<lparr> tb_scrolls := tb_scrolls tb @ [ScrollEl pos False 50] \<rparr>)
                                else toolbar_moveContainer pos animate tb)
          in if js_gt a c
             then scrollTo (js_sub (js_add (js_add ip iw) centerDelta) mw)
             else if js_lt b sp
             then (let pos = js_max (js_sub ip centerDelta) (Num 0)
                   in scrollTo (if js_gt pos ip then js_add (js_sub ip mw) iw else pos))
             else Inr tb)"

text \<open>
  \<^verbatim>\<open>alignIndicator\<close>. It ends by asking for an animation frame; \<open>alignFrame\<close> is the
  callback, taken to run at once. An error thrown in the callback ends the callback and
  reaches no caller.
\<close>

definition alignFrame ::
  "number \<Rightarrow> number \<Rightarrow> bool \<Rightarrow> bool \<Rightarrow> SuperTabsToolbarComponent \<Rightarrow> SuperTabsToolbarComponent" where
  "alignFrame position wid animate dragging tb =
     (let tb1 = tb\<lparr> indicatorPosition := Some position, indicatorWidth := Some wid \<rparr>
      in case (if scrollable tb1 then adjustContainerScroll (animate \<or> \<not> dragging) tb1
               else Inr tb1) of
           Inl e \<Rightarrow> tb1
         | Inr tb2 \<Rightarrow>
             (case indicatorEl tb2 of
                None \<Rightarrow> tb2
              | Some st \<Rightarrow>
                  let st1 = st\<lparr> position_x := Some position,
                                 scale_x := Some (js_div wid (Num 100)) \<rparr>
                  in if tb_isDragging tb2 = Some True
                     then tb2\<lparr> indicatorEl := Some (st1\<lparr> transition_duration := Some 0 \<rparr>) \<rparr>
                     else (case tb_config tb2 of
                             None \<Rightarrow> tb2\<lparr> indicatorEl := Some st1 \<rparr>
                           | Some cfg \<Rightarrow>
                               tb2\<lparr> indicatorEl :=
                                      Some (st1\<lparr> transition_duration :=
                                                   Some (transitionDuration cfg) \<rparr>) \<rparr>)))"

definition alignIndicator ::
  "number \<Rightarrow> bool option \<Rightarrow> SuperTabsToolbarComponent \<Rightarrow> SuperTabsToolbarComponent" where
  "alignIndicator idx animate tb =
     (if \<not> showIndicator tb \<or> indicatorEl tb = None then tb
      else
        let anim = (case animate of None \<Rightarrow> False | Some v \<Rightarrow> v);
            tb1 = toolbar_debug ''Aligning indicator'' tb;
            remainder = js_rem idx (Num 1);
            dragging = js_gt remainder (Num 0);
            tb2 = tb1\<lparr> tb_isDragging := Some dragging \<rparr>;
            lo = js_floor idx;
            hi = js_ceil idx
        in case array_get (buttons tb2) lo of
             None \<Rightarrow> tb2
           | Some button \<Rightarrow>
               let position = Num (btn_offsetLeft button);
                   wid = Num (btn_clientWidth button)
               in if dragging \<and> \<not> js_strict_eq lo hi
                  then (case array_get (buttons tb2) hi of
                          None \<Rightarrow> tb2
                        | Some buttonB \<Rightarrow>
                            alignFrame
                              (js_add position
                                 (js_mul remainder (js_sub (Num (btn_offsetLeft buttonB)) position)))
                              (js_add wid
                                 (js_mul remainder (js_sub (Num (btn_clientWidth buttonB)) wid)))
                              anim dragging tb2)
                  else alignFrame position wid anim dragging tb2)"

definition setActiveTab ::
  "number \<Rightarrow> bool \<Rightarrow> bool option \<Rightarrow> SuperTabsToolbarComponent \<Rightarrow> SuperTabsToolbarComponent" where
  "setActiveTab idx align animate tb =
     (let i = js_max (Num 0) (js_min (js_round idx) (Num (real (length (buttons tb)) - 1)));
          tb1 = toolbar_debug ''setActiveTab'' tb;
          tb2 = tb1\<lparr> tb_activeTabIndex := i \<rparr>;
          tb3 = markButtonActive (array_index (length (buttons tb2)) i) tb2
      in if align then alignIndicator i animate tb3 else tb3)"

text \<open>The toolbar as its field initialisers leave it.\<close>

definition newToolbar :: SuperTabsToolbarComponent where
  "newToolbar =
     \<lparr> tb_config = None, showIndicator = True, scrollable = False, buttons = [],
       indicatorPosition = None, indicatorWidth = None, activeButton = None,
       tb_activeTabIndex = Num 0, indicatorEl = None, buttonsContainerEl = None,
       tb_isDragging = None, tb_scrolls = [], tb_console = [] \<rparr>"

section \<open>The root: \<^verbatim>\<open>SuperTabsComponent\<close>\<close>

text \<open>
  The root holds the committed \<open>activeTabIndex\<close>, its two children when it has found
  them, the merged configuration \<^verbatim>\<open>_config\<close>, the count of initialisation attempts,
  and whether \<^verbatim>\<open>initPromise\<close> has been resolved. The \<^verbatim>\<open>tabChange\<close> events it emits are
  collected in \<open>tabChange\<close>, the listeners it adds in \<open>listeners\<close>, the lines it prints
  in \<open>console\<close>. An index is a number throughout, so the \<^verbatim>\<open>typeof\<close> tests of
  \<^verbatim>\<open>emitTabChangeEvent\<close> only tell a number from an argument left out.
\<close>

record SuperTabChangeEventDetail =
  changed :: bool
  index :: number

record SuperTabsComponent =
  activeTabIndex :: number
  container :: "SuperTabsContainerComponent option"
  toolbar :: "SuperTabsToolbarComponent option"
  r_config :: SuperTabsConfig
  initAttempts :: nat
  initResolved :: bool
  listeners :: "string list"
  tabChange :: "SuperTabChangeEventDetail list"
  console :: "(string \<times> string) list"

definition maxInitRetries :: nat where
  "maxInitRetries = 1000"

definition tabs_debug :: "string \<Rightarrow> SuperTabsComponent \<Rightarrow> SuperTabsComponent" where
  "tabs_debug val s = s\<lparr> console := debugLog (Some (r_config s)) ''tabs'' val (console s) \<rparr>"

definition propagateConfig :: "SuperTabsComponent \<Rightarrow> SuperTabsComponent" where
  "propagateConfig s =
     s\<lparr> container := map_option (\<lambda>c. c\<lparr> c_config := Some (r_config s) \<rparr>) (container s),
        toolbar := map_option (\<lambda>tb. tb\<lparr> tb_config := Some (r_config s) \<rparr>) (toolbar s) \<rparr>"

text \<open>
  \<^verbatim>\<open>indexChildren\<close>. What the two \<^verbatim>\<open>querySelector\<close> calls find is given: the child found,
  in the state it is in (for a child the root already holds, the state held).
\<close>

definition indexChildren ::
  "SuperTabsContainerComponent option \<Rightarrow> SuperTabsToolbarComponent option \<Rightarrow> SuperTabsComponent
     \<Rightarrow> SuperTabsComponent" where
  "indexChildren foundContainer foundToolbar s =
     (let s0 = tabs_debug ''indexChildren'' s;
          s1 = (case foundContainer of None \<Rightarrow> s0 | Some c \<Rightarrow> s0\<lparr> container := Some c \<rparr>);
          s2 = (case foundToolbar of None \<Rightarrow> s1 | Some tb \<Rightarrow> s1\<lparr> toolbar := Some tb \<rparr>)
      in propagateConfig s2)"

definition emitTabChangeEvent ::
  "number \<Rightarrow> number option \<Rightarrow> SuperTabsComponent \<Rightarrow> SuperTabsComponent" where
  "emitTabChangeEvent newIndex oldIndex s =
     (if js_lt newIndex (Num 0) then s
      else
        let old = (case oldIndex of
                     None \<Rightarrow> activeTabIndex s
                   | Some oldI \<Rightarrow> if js_lt oldI (Num 0) then activeTabIndex s else oldI)
        in s\<lparr> tabChange := tabChange s @
                 [\<lparr> changed = (\<not> js_strict_eq newIndex old), index = newIndex \<rparr>] \<rparr>)"

text \<open>
  \<^verbatim>\<open>selectTab\<close>. The method waits for \<^verbatim>\<open>initPromise\<close> first: the result is \<open>None\<close>
  while that promise is not resolved (the call has not gone past the wait), and else the
  state the body leaves, or the error it is rejected with. The body is taken as one step.
\<close>

definition selectTab ::
  "number \<Rightarrow> bool \<Rightarrow> bool \<Rightarrow> SuperTabsComponent \<Rightarrow> (error + SuperTabsComponent) option" where
  "selectTab idx animate emit s =
     (let s0 = tabs_debug ''selectTab'' s
      in if \<not> initResolved s0 then None
         else
           let lastIndex = activeTabIndex s0
           in case (case container s0 of
                      None \<Rightarrow> Inr s0
                    | Some c \<Rightarrow>
                        (case setActiveTabIndex idx True animate c of
                           Inl e \<Rightarrow> Inl e
                         | Inr c' \<Rightarrow> Inr (s0\<lparr> container := Some c' \<rparr>))) of
                Inl e \<Rightarrow> Some (Inl e)
              | Inr s1 \<Rightarrow>
                  let s2 = (case toolbar s1 of
                              None \<Rightarrow> s1
                            | Some tb \<Rightarrow>
                                s1\<lparr> toolbar := Some (setActiveTab idx True (Some animate) tb) \<rparr>);
                      s3 = (if emit then emitTabChangeEvent idx (Some lastIndex) s2 else s2)
                  in Some (Inr (s3\<lparr> activeTabIndex := lastIndex \<rparr>)))"

text \<open>
  The two other places that commit a tab: the listener for the container's
  \<^verbatim>\<open>activeTabIndexChange\<close> and the listener for the toolbar's \<^verbatim>\<open>buttonClick\<close>. The
  second does not wait for the container's promise, so a rejection there is lost.
\<close>

definition onContainerActiveTabChange :: "number \<Rightarrow> SuperTabsComponent \<Rightarrow> SuperTabsComponent" where
  "onContainerActiveTabChange idx s =
     (let s0 = tabs_debug ''onContainerActiveTabChange'' s;
          s1 = emitTabChangeEvent idx None s0;
          s2 = s1\<lparr> activeTabIndex := idx \<rparr>
      in case toolbar s2 of
           None \<Rightarrow> s2
         | Some tb \<Rightarrow> s2\<lparr> toolbar := Some (setActiveTab idx True (Some True) tb) \<rparr>)"

definition onToolbarButtonClick :: "number \<Rightarrow> SuperTabsComponent \<Rightarrow> SuperTabsComponent" where
  "onToolbarButtonClick idx s =
     (let s0 = tabs_debug ''onToolbarButtonClick'' s;
          s1 = (case container s0 of
                  None \<Rightarrow> s0
                | Some c \<Rightarrow>
                    (case setActiveTabIndex idx True True c of
                       Inl e \<Rightarrow> s0
                     | Inr c' \<Rightarrow> s0\<lparr> container := Some c' \<rparr>));
          s2 = emitTabChangeEvent idx None s1
      in s2\<lparr> activeTabIndex := idx \<rparr>)"

definition setupEventListeners :: "SuperTabsComponent \<Rightarrow> SuperTabsComponent" where
  "setupEventListeners s =
     (let s1 = (case container s of
                  Some c \<Rightarrow>
                    s\<lparr> listeners := listeners s @ [''selectedTabIndexChange'', ''activeTabIndexChange''] \<rparr>
                | None \<Rightarrow> tabs_debug ''setupEventListeners: container does not exist'' s)
      in case toolbar s1 of
           Some tb \<Rightarrow> s1\<lparr> listeners := listeners s1 @ [''buttonClick''] \<rparr>
         | None \<Rightarrow> tabs_debug ''setupEventListeners: toolbar does not exist'' s1)"

text \<open>
  \<^verbatim>\<open>initComponent\<close>, one call of it: either it asks for another animation frame
  (\<open>Rescheduled\<close>), or it runs to its end and resolves \<^verbatim>\<open>initPromise\<close> (\<open>Initialised\<close>).
  \<open>initDiagnostic\<close> is the line it hands to the debug log when it gives up waiting.
\<close>

datatype initOutcome =
    Rescheduled SuperTabsComponent
  | Initialised SuperTabsComponent
  | InitFailed error

definition initDiagnostic :: string where
  "initDiagnostic = ''container still doesn't exists after 1000 frames''"

definition initComponent :: "SuperTabsComponent \<Rightarrow> initOutcome" where
  "initComponent s =
     (if container s = None \<and> Suc (initAttempts s) \<le> maxInitRetries
      then Rescheduled (s\<lparr> initAttempts := Suc (initAttempts s) \<rparr>)
      else
        let s1 = (if container s = None
                  then tabs_debug initDiagnostic (s\<lparr> initAttempts := Suc (initAttempts s) \<rparr>)
                  else s)
        in case (if js_gt (activeTabIndex s1) (Num 0)
                 then (case (case container s1 of
                               None \<Rightarrow> Inr s1
                             | Some c \<Rightarrow>
                                 (case moveContainerByIndex (activeTabIndex s1) False c of
                                    Inl e \<Rightarrow> Inl e
                                  | Inr c' \<Rightarrow> Inr (s1\<lparr> container := Some c' \<rparr>))) of
                         Inl e \<Rightarrow> Inl e
                       | Inr s2 \<Rightarrow>
                           Inr (case toolbar s2 of
                                  None \<Rightarrow> s2
                                | Some tb \<Rightarrow>
                                    s2\<lparr> toolbar :=
                                          Some (setActiveTab (activeTabIndex s2) True None tb) \<rparr>))
                 else Inr s1) of
             Inl e \<Rightarrow> InitFailed e
           | Inr s3 \<Rightarrow>
               Initialised ((setupEventListeners (propagateConfig s3))\<lparr> initResolved := True \<rparr>))"

text \<open>
  The chain of animation frames that \<^verbatim>\<open>componentDidLoad\<close> starts: \<^verbatim>\<open>initComponent\<close> is
  called again in the next frame as long as it asks for one. Between two frames other
  handlers may run and change the component in any way (\<open>between k\<close> is what happens
  after the \<open>k\<close>-th call), except that nothing but \<^verbatim>\<open>initComponent\<close> writes
  \<^verbatim>\<open>initAttempts\<close>. The result is the number of calls made and the outcome of the last.
\<close>

function initFrames ::
  "(nat \<Rightarrow> SuperTabsComponent \<Rightarrow> SuperTabsComponent) \<Rightarrow> nat \<Rightarrow> SuperTabsComponent
     \<Rightarrow> nat \<times> initOutcome" where
  "initFrames between k s =
     (case initComponent s of
        Rescheduled s' \<Rightarrow>
          initFrames between (Suc k) ((between k s')\<lparr> initAttempts := initAttempts s' \<rparr>)
      | outcome \<Rightarrow> (Suc k, outcome))"
  by pat_completeness auto
termination
proof (relation "measure (\<lambda>(between, k, s). Suc maxInitRetries - initAttempts s)")
  show "wf (measure (\<lambda>(between, k, s). Suc maxInitRetries - initAttempts s))"
    by simp
next
  fix between :: "nat \<Rightarrow> SuperTabsComponent \<Rightarrow> SuperTabsComponent"
    and k :: nat and s s' :: SuperTabsComponent
  assume "initComponent s = Rescheduled s'"
  then have "initAttempts s' = Suc (initAttempts s)" and "Suc (initAttempts s) \<le> maxInitRetries"
    by (auto simp add: initComponent_def Let_def split: if_splits sum.splits)
  then show "((between, Suc k, (between k s')\<lparr> initAttempts := initAttempts s' \<rparr>), (between, k, s))
               \<in> measure (\<lambda>(between, k, s). Suc maxInitRetries - initAttempts s)"
    by simp
qed

text \<open>The root as its field initialisers leave it.\<close>

definition newRoot :: SuperTabsComponent where
  "newRoot =
     \<lparr> activeTabIndex = Num 0, container = None, toolbar = None, r_config = DEFAULT_CONFIG,
       initAttempts = 0, initResolved = False, listeners = [], tabChange = [], console = [] \<rparr>"

text \<open>Example states, for the concrete instances below.\<close>

definition measuredExample :: SuperTabsContainerComponent where
  "measuredExample =
     (newContainer \<lparr> scrollLeft = 0, rectWidth = 36012345 / 100000 \<rparr>)
       \<lparr> tabs := replicate 4 \<lparr> loaded = False, visible = False \<rparr> \<rparr>"

definition unmeasuredExample :: SuperTabsContainerComponent where
  "unmeasuredExample = updateWidth (newContainer \<lparr> scrollLeft = 0, rectWidth = 0 \<rparr>)"






text \<open>Six tabs, all loaded, with lazy loading on and tab 3 active.\<close>

definition lazyExample :: SuperTabsContainerComponent where
  "lazyExample =
     (newContainer \<lparr> scrollLeft = 900, rectWidth = 300 \<rparr>)
       \<lparr> c_config := Some (DEFAULT_CONFIG\<lparr> lazyLoad := True \<rparr>),
         tabs := replicate 6 \<lparr> loaded = True, visible = True \<rparr>,
         c_activeTabIndex := Some (Num 3), scrollWidth := 1800, width := 300 \<rparr>"

text \<open>
  A root that has found both children and finished its initialisation, on tab 0 of three;
  and a root with debugging on that has waited 1000 frames for its container.
\<close>

definition readyContainer :: SuperTabsContainerComponent where
  "readyContainer =
     (newContainer \<lparr> scrollLeft = 0, rectWidth = 300 \<rparr>)
       \<lparr> c_config := Some DEFAULT_CONFIG,
         tabs := replicate 3 \<lparr> loaded = True, visible = True \<rparr>,
         c_activeTabIndex := Some (Num 0), scrollWidth := 900, width := 300 \<rparr>"

definition readyToolbar :: SuperTabsToolbarComponent where
  "readyToolbar =
     newToolbar
       \<lparr> tb_config := Some DEFAULT_CONFIG,
         buttons := [\<lparr> btn_offsetLeft = 0, btn_clientWidth = 100, btn_active = True \<rparr>,
                     \<lparr> btn_offsetLeft = 100, btn_clientWidth = 100, btn_active = False \<rparr>,
                     \<lparr> btn_offsetLeft = 200, btn_clientWidth = 100, btn_active = False \<rparr>],
         indicatorPosition := Some (Num 0), indicatorWidth := Some (Num 100),
         activeButton := Some 0,
         indicatorEl := Some \<lparr> position_x = Some (Num 0), scale_x = Some (Num 1),
                                 transition_duration = Some 150 \<rparr>,
         buttonsContainerEl := Some \<lparr> bc_clientWidth = 300, bc_scrollLeft = 0 \<rparr>,
         tb_isDragging := Some False \<rparr>"

definition readyRoot :: SuperTabsComponent where
  "readyRoot =
     newRoot\<lparr> container := Some readyContainer,
              toolbar := Some readyToolbar,
              initResolved := True,
              listeners := [''selectedTabIndexChange'', ''activeTabIndexChange'', ''buttonClick''] \<rparr>"

definition exhaustedRoot :: SuperTabsComponent where
  "exhaustedRoot =
     newRoot\<lparr> r_config := DEFAULT_CONFIG\<lparr> debug := True \<rparr>, initAttempts := 1000 \<rparr>"

section \<open>The easing curve\<close>

text \<open>
  Claim C8. For every real \<open>t\<close> (in particular every \<open>t\<close> in \<open>[0, 1]\<close>) the easing
  function of utils.ts, \<open>t < 0.5 ? 4ttt : (t-1)(2t-2)(2t-2)+1\<close>, equals the cubic
  ease-in-out curve of the specification, \<open>t < 0.5 ? 4t\<^sup>3 : 1 - (-2t+2)\<^sup>3/2\<close>, in exact
  arithmetic.
\<close>

theorem easeInOutCubic_refines_spec:
  "easeInOutCubic t = spec_easeInOutCubic t"
proof (cases "t < 1 / 2")
  case True
  then show ?thesis
    unfolding easeInOutCubic_def spec_easeInOutCubic_def
    by (simp add: power3_eq_cube)
next
  case False
  have "(- 2 * t + 2) ^ 3 = - 2 * ((t - 1) * (2 * t - 2) * (2 * t - 2))"
    by (simp add: power3_eq_cube algebra_simps)
  then have "1 - (- 2 * t + 2) ^ 3 / 2 = (t - 1) * (2 * t - 2) * (2 * t - 2) + 1"
    by simp
  with False show ?thesis
    unfolding easeInOutCubic_def spec_easeInOutCubic_def
    by simp
qed

section \<open>Clamping of the scroll offset\<close>

text \<open>
  Claim C5. For every offset \<open>x = scrollLeft + delta\<close>, negative and over-max ones
  included, with \<open>tabCount \<ge> 1\<close>, \<open>tabWidth \<ge> 0\<close> and a scrollable width of
  \<open>tabCount * tabWidth\<close>, the normalized offset
  \<open>max(0, min(scrollableWidth - tabWidth, x))\<close> lies in \<open>[0, (tabCount - 1) * tabWidth]\<close>.
\<close>

theorem getNormalizedScrollX_in_range:
  assumes "1 \<le> tabCount" and "0 \<le> tabWidth"
    and "el_scrollWidth elem = real tabCount * tabWidth"
  shows "0 \<le> getNormalizedScrollX elem tabWidth delta
       \<and> getNormalizedScrollX elem tabWidth delta \<le> (real tabCount - 1) * tabWidth"
proof -
  have "0 \<le> (real tabCount - 1) * tabWidth"
    using assms(1,2) by simp
  moreover have "el_scrollWidth elem - tabWidth = (real tabCount - 1) * tabWidth"
    using assms(3) by (simp add: algebra_simps)
  ultimately show ?thesis
    unfolding getNormalizedScrollX_def by simp
qed

theorem getNormalizedScrollX_in_range_witness:
  "0 \<le> getNormalizedScrollX \<lparr> el_scrollWidth = 1200, el_scrollLeft = 600 \<rparr> 300 5000
   \<and> getNormalizedScrollX \<lparr> el_scrollWidth = 1200, el_scrollLeft = 600 \<rparr> 300 5000 \<le> 900
   \<and> getNormalizedScrollX \<lparr> el_scrollWidth = 1200, el_scrollLeft = 600 \<rparr> 300 5000 = 900
   \<and> getNormalizedScrollX \<lparr> el_scrollWidth = 1200, el_scrollLeft = 600 \<rparr> 300 (- 5000) = 0"
  using getNormalizedScrollX_in_range
    [of 4 300 "\<lparr> el_scrollWidth = 1200, el_scrollLeft = 600 \<rparr>" 5000]
  by (simp add: getNormalizedScrollX_def)

section \<open>Index and offset\<close>

lemma floor_int_half: "\<lfloor>real_of_int n + 1 / 2\<rfloor> = n"
  by linarith

lemma updateWidth_grid: "\<exists>k. width (updateWidth s) = of_int k / 10000"
  by (simp add: updateWidth_def)

text \<open>
  A measured width is a whole number of ten-thousandths, so the offset of a whole index
  is not changed by its rounding, and the way back is exact.
\<close>

lemma roundtrip_exact:
  assumes "width s = of_int k / 10000" and "0 < width s"
  shows "positionToIndex s (indexToPosition s (Num (of_int i))) = Num (of_int i)"
proof -
  have k: "k \<noteq> 0" using assms by auto
  have "of_int i * width s * 10000 = (of_int (i * k) :: real)"
    using assms(1) by simp
  then have "\<lfloor>of_int i * width s * 10000 + 1 / 2\<rfloor> = i * k"
    by (simp only: floor_int_half)
  then have "indexToPosition s (Num (of_int i)) = Num (of_int (i * k) / 10000)"
    by (simp add: indexToPosition_def)
  moreover have "of_int (i * k) / 10000 / (of_int k / 10000) = (of_int i :: real)"
    using k by simp
  then have "of_int (i * k) / 10000 / width s = (of_int i :: real)"
    by (simp only: assms(1))
  ultimately show ?thesis
    using assms(2) by (simp add: positionToIndex_def)
qed

text \<open>
  Claim C3. For every integer \<open>i\<close> with \<open>0 \<le> i \<le> tabCount - 1\<close>, on a component whose
  width has been measured (\<^verbatim>\<open>updateWidth\<close>) and is positive, turning the index into an
  offset and back, \<open>positionToIndex (indexToPosition i)\<close>, gives a number within
  \<open>1e-4\<close> of \<open>i\<close>.
\<close>

theorem positionToIndex_indexToPosition_roundtrip:
  assumes "0 < width (updateWidth s)"
    and "0 \<le> i" and "i \<le> int (length (tabs (updateWidth s))) - 1"
  shows "\<exists>r. positionToIndex (updateWidth s) (indexToPosition (updateWidth s) (Num (of_int i))) = Num r
           \<and> \<bar>r - of_int i\<bar> \<le> 1 / 10000"
proof -
  obtain k where "width (updateWidth s) = of_int k / 10000"
    using updateWidth_grid by blast
  then have "positionToIndex (updateWidth s) (indexToPosition (updateWidth s) (Num (of_int i)))
               = Num (of_int i)"
    using assms(1) by (rule roundtrip_exact)
  then show ?thesis by simp
qed

theorem positionToIndex_indexToPosition_roundtrip_witness:
  "width (updateWidth measuredExample) = 3601235 / 10000
   \<and> (\<exists>r. positionToIndex (updateWidth measuredExample)
              (indexToPosition (updateWidth measuredExample) (Num (of_int 2))) = Num r
          \<and> \<bar>r - of_int 2\<bar> \<le> 1 / 10000)"
proof -
  have w: "width (updateWidth measuredExample) = 3601235 / 10000"
    by (simp add: updateWidth_def measuredExample_def newContainer_def)
  have h1: "0 < width (updateWidth measuredExample)"
    by (simp only: w)
  have h3: "2 \<le> int (length (tabs (updateWidth measuredExample))) - 1"
    by (simp add: updateWidth_def measuredExample_def)
  have h2: "(0::int) \<le> 2" by simp
  show ?thesis
    by (rule conjI [OF w positionToIndex_indexToPosition_roundtrip [OF h1 h2 h3]])
qed

section \<open>An unmeasured width\<close>

text \<open>
  Claim C4 says that with a measured width of zero the offset-to-index conversion takes
  an error branch instead of returning NaN or an infinity. The code has no such branch:
  \<^verbatim>\<open>positionToIndex\<close> divides, whatever the width. On a component that has just measured
  a width of zero, offset 0 becomes NaN.
\<close>

theorem positionToIndex_zero_width_counterexample:
  "width unmeasuredExample = 0
   \<and> positionToIndex unmeasuredExample (Num 0) = NaN
   \<and> calcSelectedTab unmeasuredExample = NaN"
  by (simp add: unmeasuredExample_def updateWidth_def newContainer_def positionToIndex_def
      calcSelectedTab_def)

text \<open>
  Claim C4, amended. With a width of zero the conversion is not guarded: 
  \<^verbatim>\<open>positionToIndex\<close> returns NaN for offset 0, \<open>+Infinity\<close> for a positive offset and
  \<open>-Infinity\<close> for a negative one; \<^verbatim>\<open>calcSelectedTab\<close> returns NaN or \<open>+Infinity\<close>; and
  \<^verbatim>\<open>normalizeSelectedTab\<close> returns NaN for every index.
\<close>

theorem zero_width_unguarded:
  assumes "width s = 0"
  shows "positionToIndex s (Num x) = (if x = 0 then NaN else if 0 < x then PosInf else NegInf)
       \<and> (calcSelectedTab s = NaN \<or> calcSelectedTab s = PosInf)
       \<and> normalizeSelectedTab s idx = NaN"
proof -
  have p: "positionToIndex s (Num x) = (if x = 0 then NaN else if 0 < x then PosInf else NegInf)"
    using assms by (simp add: positionToIndex_def)
  have c: "calcSelectedTab s = NaN \<or> calcSelectedTab s = PosInf"
  proof (cases "max 0 (min (scrollWidth s - width s) (scrollLeft (el s))) = 0")
    case True
    then show ?thesis using assms by (simp add: calcSelectedTab_def positionToIndex_def)
  next
    case False
    moreover have "0 \<le> max 0 (min (scrollWidth s - width s) (scrollLeft (el s)))" by simp
    ultimately have "0 < max 0 (min (scrollWidth s - width s) (scrollLeft (el s)))" by linarith
    then show ?thesis using assms False by (simp add: calcSelectedTab_def positionToIndex_def)
  qed
  have "indexToPosition s idx = Num 0 \<or> indexToPosition s idx = NaN"
    using assms by (cases idx) (simp_all add: indexToPosition_def)
  then have n: "normalizeSelectedTab s idx = NaN"
    using assms by (auto simp add: normalizeSelectedTab_def)
  from p c n show ?thesis by blast
qed

theorem zero_width_unguarded_witness:
  "width unmeasuredExample = 0
   \<and> positionToIndex unmeasuredExample (Num 120) = PosInf
   \<and> normalizeSelectedTab unmeasuredExample (Num 1) = NaN"
proof -
  have w: "width unmeasuredExample = 0"
    by (simp add: unmeasuredExample_def updateWidth_def newContainer_def)
  show ?thesis
    using zero_width_unguarded [OF w, of 120 "Num 1"] w by simp
qed

section \<open>The end of a drag\<close>

lemma lazyLoadTabs_frame:
  "c_activeTabIndex (lazyLoadTabs s) = c_activeTabIndex s"
  "activeTabIndexChange (lazyLoadTabs s) = activeTabIndexChange s"
  "selectedTabIndexChange (lazyLoadTabs s) = selectedTabIndexChange s"
  "c_selectedTabIndex (lazyLoadTabs s) = c_selectedTabIndex s"
  "c_config (lazyLoadTabs s) = c_config s"
  "width (lazyLoadTabs s) = width s"
  "scrollWidth (lazyLoadTabs s) = scrollWidth s"
  "scrolls (lazyLoadTabs s) = scrolls s"
  "el (lazyLoadTabs s) = el s"
  by (simp_all add: lazyLoadTabs_def container_debug_def split: option.splits)

lemma updateActiveTabIndex_Inr:
  assumes "c_config s = Some cfg"
  shows "\<exists>s'. updateActiveTabIndex idx emit s = Inr s'
           \<and> c_activeTabIndex s' = Some idx
           \<and> activeTabIndexChange s' = activeTabIndexChange s @ (if emit then [idx] else [])
           \<and> c_config s' = Some cfg \<and> width s' = width s \<and> scrollWidth s' = scrollWidth s
           \<and> scrolls s' = scrolls s \<and> el s' = el s"
  using assms
  by (simp add: updateActiveTabIndex_def container_debug_def lazyLoadTabs_frame Let_def)

lemma moveContainerByIndex_Inr:
  assumes "c_config s = Some cfg"
  shows "\<exists>s'. moveContainerByIndex idx animate s = Inr s'
           \<and> c_activeTabIndex s' = c_activeTabIndex s
           \<and> activeTabIndexChange s' = activeTabIndexChange s
           \<and> c_config s' = c_config s \<and> tabs s' = tabs s"
  using assms
  by (simp add: moveContainerByIndex_def moveContainer_def Let_def)


text \<open>Without rounding, the conversions of the end of a drag are the conversions over the reals.\<close>

lemma rounded_exact: "rounded (\<lambda>x. x) v = v"
  by (cases v) (simp_all add: rounded_def)

lemma conversions_exact:
  "positionToIndex_fl (\<lambda>x. x) s scrollX = positionToIndex s scrollX"
  "indexToPosition_fl (\<lambda>x. x) s idx = indexToPosition s idx"
  "calcSelectedTab_fl (\<lambda>x. x) s = calcSelectedTab s"
  "normalizeSelectedTab_fl (\<lambda>x. x) s idx = normalizeSelectedTab s idx"
  "moveContainerByIndex_fl (\<lambda>x. x) idx animate s = moveContainerByIndex idx animate s"
  by (simp_all add: positionToIndex_fl_def positionToIndex_def indexToPosition_fl_def
      indexToPosition_def calcSelectedTab_fl_def calcSelectedTab_def normalizeSelectedTab_fl_def
      normalizeSelectedTab_def moveContainerByIndex_fl_def moveContainerByIndex_def rounded_exact)














section \<open>Lazy loading\<close>

lemma lazyLoadLoop_length: "length (lazyLoadLoop u mn mx i ts) = length ts"
  by (induction ts arbitrary: i) (simp_all add: Let_def)

lemma lazyLoadLoop_nth:
  "j < length ts \<Longrightarrow>
   lazyLoadLoop u mn mx i ts ! j =
     (ts ! j)\<lparr> visible := (js_ge (Num (real (i + j))) mn \<and> js_le (Num (real (i + j))) mx),
              loaded := ((js_ge (Num (real (i + j))) mn \<and> js_le (Num (real (i + j))) mx)
                          \<or> (if u then False else loaded (ts ! j))) \<rparr>"
proof (induction ts arbitrary: i j)
  case Nil
  then show ?case by simp
next
  case (Cons t ts)
  show ?case
  proof (cases j)
    case 0
    then show ?thesis by (simp add: Let_def)
  next
    case (Suc j')
    with Cons.prems have "j' < length ts" by simp
    from Cons.IH [OF this, of "Suc i"] Suc show ?thesis by (simp add: Let_def)
  qed
qed

text \<open>
  Claim C7. With an active index \<open>a\<close> and a configuration, after \<^verbatim>\<open>lazyLoadTabs\<close> and
  for every tab index \<open>i\<close>: when \<^verbatim>\<open>lazyLoad\<close> is on, tab \<open>i\<close> is visible iff
  \<open>a - 1 \<le> i \<le> a + 1\<close>, a visible tab is loaded, and a tab that is not visible has
  \<open>loaded = false\<close> when \<^verbatim>\<open>unloadWhenInvisible\<close> is on and keeps its earlier \<open>loaded\<close>
  otherwise; when \<^verbatim>\<open>lazyLoad\<close> is off, every tab is loaded and visible. The number of
  tabs does not change.
\<close>

theorem lazyLoadTabs_window:
  assumes "c_activeTabIndex s = Some (Num a)" and "c_config s = Some cfg"
    and "i < length (tabs s)"
  shows "length (tabs (lazyLoadTabs s)) = length (tabs s)
       \<and> (if lazyLoad cfg
          then (visible (tabs (lazyLoadTabs s) ! i) = (a - 1 \<le> real i \<and> real i \<le> a + 1))
             \<and> (if visible (tabs (lazyLoadTabs s) ! i)
                then loaded (tabs (lazyLoadTabs s) ! i)
                else loaded (tabs (lazyLoadTabs s) ! i)
                       = (if unloadWhenInvisible cfg then False else loaded (tabs s ! i)))
          else loaded (tabs (lazyLoadTabs s) ! i) \<and> visible (tabs (lazyLoadTabs s) ! i))"
proof (cases "lazyLoad cfg")
  case True
  then have t: "tabs (lazyLoadTabs s)
      = lazyLoadLoop (unloadWhenInvisible cfg) (Num (a - 1)) (Num (a + 1)) 0 (tabs s)"
    using assms(1,2) by (simp add: lazyLoadTabs_def js_sub_def)
  show ?thesis
    using True assms(3)
    by (auto simp add: t lazyLoadLoop_length lazyLoadLoop_nth js_ge_def)
next
  case False
  then have "tabs (lazyLoadTabs s) = map (\<lambda>t. t\<lparr> loaded := True, visible := True \<rparr>) (tabs s)"
    using assms(1,2) by (simp add: lazyLoadTabs_def)
  then show ?thesis using False assms(3) by simp
qed


theorem lazyLoadTabs_window_witness:
  "visible (tabs (lazyLoadTabs lazyExample) ! 2)
   \<and> visible (tabs (lazyLoadTabs lazyExample) ! 4)
   \<and> \<not> visible (tabs (lazyLoadTabs lazyExample) ! 5)
   \<and> loaded (tabs (lazyLoadTabs lazyExample) ! 5)"
proof -
  have f: "c_activeTabIndex lazyExample = Some (Num 3)"
    "c_config lazyExample = Some (DEFAULT_CONFIG\<lparr> lazyLoad := True \<rparr>)"
    "2 < length (tabs lazyExample)" "4 < length (tabs lazyExample)" "5 < length (tabs lazyExample)"
    "loaded (tabs lazyExample ! 5)"
    by (simp_all add: lazyExample_def newContainer_def)
  have c: "lazyLoad (DEFAULT_CONFIG\<lparr> lazyLoad := True \<rparr>)"
    "\<not> unloadWhenInvisible (DEFAULT_CONFIG\<lparr> lazyLoad := True \<rparr>)"
    by (simp_all add: DEFAULT_CONFIG_def)
  show ?thesis
    using lazyLoadTabs_window [OF f(1,2) f(3)] lazyLoadTabs_window [OF f(1,2) f(4)]
      lazyLoadTabs_window [OF f(1,2) f(5)] f(6) c
    by simp
qed

section \<open>The selected index during a drag\<close>

lemma js_strict_eq_sym: "js_strict_eq a b = js_strict_eq b a"
  by (cases a; cases b) auto

lemma no_repeat_snoc:
  "no_repeat xs \<Longrightarrow> (xs = [] \<or> \<not> js_strict_eq (last xs) x) \<Longrightarrow> no_repeat (xs @ [x])"
  by (induction xs rule: no_repeat.induct) auto

lemma updateSelectedTabIndex_inv:
  assumes "emitted_is_stored s" and "no_repeat (selectedTabIndexChange s)"
  shows "emitted_is_stored (updateSelectedTabIndex idx s)
       \<and> no_repeat (selectedTabIndexChange (updateSelectedTabIndex idx s))"
proof (cases "case c_selectedTabIndex s of None \<Rightarrow> False | Some cur \<Rightarrow> js_strict_eq idx cur")
  case True
  then show ?thesis using assms by (simp add: updateSelectedTabIndex_def)
next
  case False
  then have "selectedTabIndexChange s = [] \<or> \<not> js_strict_eq (last (selectedTabIndexChange s)) idx"
    using assms(1) js_strict_eq_sym [of idx]
    by (auto simp add: emitted_is_stored_def split: option.splits)
  then have "no_repeat (selectedTabIndexChange s @ [idx])"
    using assms(2) by (rule no_repeat_snoc [rotated])
  then show ?thesis
    using False by (simp add: updateSelectedTabIndex_def emitted_is_stored_def)
qed

lemma fold_updateSelectedTabIndex_inv:
  "emitted_is_stored s \<Longrightarrow> no_repeat (selectedTabIndexChange s) \<Longrightarrow>
   emitted_is_stored (fold updateSelectedTabIndex idxs s)
   \<and> no_repeat (selectedTabIndexChange (fold updateSelectedTabIndex idxs s))"
proof (induction idxs arbitrary: s)
  case Nil
  then show ?case by simp
next
  case (Cons i idxs)
  from updateSelectedTabIndex_inv [OF Cons.prems, of i]
  show ?case using Cons.IH by simp
qed

lemma no_repeat_distinct_adj:
  "no_repeat xs \<Longrightarrow> NaN \<notin> set xs \<Longrightarrow> distinct_adj xs"
proof (induction xs rule: no_repeat.induct)
  case (1 a b rest)
  then have "a \<noteq> b" by (cases a; cases b) auto
  with 1 show ?case by simp
qed simp_all

lemma updateSelectedTabIndex_emitted_subset:
  "set (selectedTabIndexChange (updateSelectedTabIndex idx s))
     \<subseteq> insert idx (set (selectedTabIndexChange s))"
  by (auto simp add: updateSelectedTabIndex_def)

lemma fold_updateSelectedTabIndex_emitted_subset:
  "set (selectedTabIndexChange (fold updateSelectedTabIndex idxs s))
     \<subseteq> set idxs \<union> set (selectedTabIndexChange s)"
proof (induction idxs arbitrary: s)
  case Nil
  then show ?case by simp
next
  case (Cons i idxs)
  from Cons.IH [of "updateSelectedTabIndex i s"] updateSelectedTabIndex_emitted_subset [of i s]
  show ?case by auto
qed

lemma no_repeat_nth:
  "no_repeat xs \<Longrightarrow> Suc i < length xs \<Longrightarrow> xs ! i = xs ! Suc i \<Longrightarrow> xs ! i = NaN"
proof (induction xs arbitrary: i rule: no_repeat.induct)
  case (1 a b rest)
  show ?case
  proof (cases i)
    case 0
    with "1.prems" have "\<not> js_strict_eq a b" and "a = b" by simp_all
    then have "a = NaN" by (cases a) auto
    with 0 show ?thesis by simp
  next
    case (Suc j)
    with "1.prems" "1.IH" [of j] show ?thesis by simp
  qed
qed simp_all

text \<open>
  Claim C10 says that \<^verbatim>\<open>selectedTabIndexChange\<close> is never emitted twice in a row with the
  same value, for every index. \<^verbatim>\<open>updateSelectedTabIndex\<close> compares with \<^verbatim>\<open>===\<close>, and NaN
  is not \<^verbatim>\<open>===\<close> to itself: two calls with NaN on a new component store and emit NaN
  twice. NaN is the index that \<^verbatim>\<open>onTouchMove\<close> computes,
  \<^verbatim>\<open>Math.round(positionToIndex(scrollX) * 100) / 100\<close>, for offset 0 on a component with a
  measured width of zero.
\<close>

theorem updateSelectedTabIndex_NaN_counterexample:
  "js_div (js_round (js_mul (positionToIndex unmeasuredExample (Num 0)) (Num 100))) (Num 100) = NaN
   \<and> selectedTabIndexChange
       (fold updateSelectedTabIndex [NaN, NaN] (newContainer \<lparr> scrollLeft = 0, rectWidth = 0 \<rparr>))
       = [NaN, NaN]"
  by (simp add: unmeasuredExample_def updateWidth_def newContainer_def positionToIndex_def
      updateSelectedTabIndex_def)

text \<open>
  Claim C10, amended. \<^verbatim>\<open>updateSelectedTabIndex(index)\<close> returns with the state as it was
  (nothing stored, nothing emitted) when \<open>index\<close> is \<^verbatim>\<open>===\<close> to the stored selected
  index, which is never so for NaN, and otherwise stores \<open>index\<close> and emits it exactly
  once. So, whatever the sequence of calls on a new component, two values that
  \<^verbatim>\<open>selectedTabIndexChange\<close> emits one after the other are the same only when both are
  NaN; when no NaN is passed in, no value is emitted twice in a row.
\<close>

theorem updateSelectedTabIndex_no_repeat:
  "(if (case c_selectedTabIndex s of None \<Rightarrow> False | Some cur \<Rightarrow> js_strict_eq idx cur)
    then updateSelectedTabIndex idx s = s
    else updateSelectedTabIndex idx s
           = s\<lparr> c_selectedTabIndex := Some idx,
                selectedTabIndexChange := selectedTabIndexChange s @ [idx] \<rparr>)
   \<and> (\<forall>i. Suc i < length (selectedTabIndexChange (fold updateSelectedTabIndex idxs (newContainer host)))
          \<longrightarrow> selectedTabIndexChange (fold updateSelectedTabIndex idxs (newContainer host)) ! i
               = selectedTabIndexChange (fold updateSelectedTabIndex idxs (newContainer host)) ! Suc i
          \<longrightarrow> selectedTabIndexChange (fold updateSelectedTabIndex idxs (newContainer host)) ! i = NaN)
   \<and> (NaN \<notin> set idxs \<longrightarrow>
        distinct_adj (selectedTabIndexChange (fold updateSelectedTabIndex idxs (newContainer host))))"
proof -
  have "emitted_is_stored (newContainer host)" "no_repeat (selectedTabIndexChange (newContainer host))"
    by (simp_all add: emitted_is_stored_def newContainer_def)
  then have n: "no_repeat (selectedTabIndexChange (fold updateSelectedTabIndex idxs (newContainer host)))"
    using fold_updateSelectedTabIndex_inv by blast
  have "set (selectedTabIndexChange (fold updateSelectedTabIndex idxs (newContainer host))) \<subseteq> set idxs"
    using fold_updateSelectedTabIndex_emitted_subset [of idxs "newContainer host"]
    by (simp add: newContainer_def)
  then have d: "NaN \<notin> set idxs \<longrightarrow>
      distinct_adj (selectedTabIndexChange (fold updateSelectedTabIndex idxs (newContainer host)))"
    using n no_repeat_distinct_adj by blast
  from n d no_repeat_nth [OF n] show ?thesis by (simp add: updateSelectedTabIndex_def)
qed

theorem updateSelectedTabIndex_no_repeat_witness:
  "selectedTabIndexChange
     (fold updateSelectedTabIndex [Num (1 / 10), Num (1 / 10), Num (1 / 5), Num (1 / 10)]
        (newContainer \<lparr> scrollLeft = 0, rectWidth = 300 \<rparr>))
     = [Num (1 / 10), Num (1 / 5), Num (1 / 10)]
   \<and> distinct_adj (selectedTabIndexChange
        (fold updateSelectedTabIndex [Num (1 / 10), Num (1 / 10), Num (1 / 5), Num (1 / 10)]
           (newContainer \<lparr> scrollLeft = 0, rectWidth = 300 \<rparr>)))"
proof -
  have "selectedTabIndexChange
     (fold updateSelectedTabIndex [Num (1 / 10), Num (1 / 10), Num (1 / 5), Num (1 / 10)]
        (newContainer \<lparr> scrollLeft = 0, rectWidth = 300 \<rparr>))
     = [Num (1 / 10), Num (1 / 5), Num (1 / 10)]"
    by (simp add: updateSelectedTabIndex_def newContainer_def)
  moreover have "NaN \<notin> set [Num (1 / 10), Num (1 / 10), Num (1 / 5), Num (1 / 10)]"
    by simp
  ultimately show ?thesis
    using updateSelectedTabIndex_no_repeat
      [where s = "newContainer \<lparr> scrollLeft = 0, rectWidth = 300 \<rparr>" and idx = "Num 0"
          and idxs = "[Num (1 / 10), Num (1 / 10), Num (1 / 5), Num (1 / 10)]"
          and host = "\<lparr> scrollLeft = 0, rectWidth = 300 \<rparr>"]
    by blast
qed

section \<open>Selecting a tab from the root\<close>

lemma scrollToTop_frame:
  "c_config (scrollToTop s) = c_config s"
  "activeTabIndexChange (scrollToTop s) = activeTabIndexChange s"
  by (simp_all add: scrollToTop_def container_debug_def split: option.splits)

lemma setActiveTabIndex_Inr:
  assumes "c_config c = Some cfg"
  shows "\<exists>c'. setActiveTabIndex idx mv animate c = Inr c'
           \<and> activeTabIndexChange c' = activeTabIndexChange c"
proof -
  define s1 where "s1 = container_debug ''setActiveTabIndex'' c"
  define s2 where "s2 = (if (case c_activeTabIndex s1 of None \<Rightarrow> False | Some a \<Rightarrow> js_strict_eq a idx)
                         then scrollToTop s1 else s1)"
  have s1: "c_config s1 = Some cfg" "activeTabIndexChange s1 = activeTabIndexChange c"
    using assms by (simp_all add: s1_def container_debug_def)
  have s2: "c_config s2 = Some cfg" "activeTabIndexChange s2 = activeTabIndexChange c"
    using s1 by (simp_all add: s2_def scrollToTop_frame)
  obtain s3 where s3: "(if mv then moveContainerByIndex idx animate s2 else Inr s2) = Inr s3"
      "c_config s3 = Some cfg" "activeTabIndexChange s3 = activeTabIndexChange c"
    using moveContainerByIndex_Inr [OF s2(1), of idx animate] s2 by (cases mv) auto
  obtain s4 where s4: "updateActiveTabIndex idx False s3 = Inr s4"
      "activeTabIndexChange s4 = activeTabIndexChange s3"
    using updateActiveTabIndex_Inr [OF s3(2), of idx False] by auto
  show ?thesis
    using s1 s3 s4
    by (auto simp add: setActiveTabIndex_def Let_def s1_def [symmetric] s2_def [symmetric])
qed

lemma selectTab_keeps_activeTabIndex:
  "selectTab idx animate emit s = Some (Inr s') \<Longrightarrow> activeTabIndex s' = activeTabIndex s"
  by (auto simp add: selectTab_def Let_def tabs_debug_def split: if_splits sum.splits option.splits)

lemma siblings_commit:
  "activeTabIndex (onContainerActiveTabChange idx s) = idx"
  "activeTabIndex (onToolbarButtonClick idx s) = idx"
  by (simp_all add: onContainerActiveTabChange_def onToolbarButtonClick_def Let_def split: option.splits)

text \<open>
  Whatever container the root holds after \<^verbatim>\<open>indexChildren\<close> has its configuration, since
  \<^verbatim>\<open>propagateConfig\<close> assigns it.
\<close>

lemma indexChildren_config:
  "case container (indexChildren foundContainer foundToolbar s) of
     None \<Rightarrow> True
   | Some c \<Rightarrow> c_config c \<noteq> None"
  by (cases "container s"; cases foundContainer; cases foundToolbar)
     (simp_all add: indexChildren_def propagateConfig_def tabs_debug_def Let_def)

text \<open>The toolbar's \<^verbatim>\<open>setActiveTab\<close> stores the index rounded and clamped to the buttons.\<close>

lemma adjustContainerScroll_activeTabIndex:
  "adjustContainerScroll animate tb = Inr tb' \<Longrightarrow> tb_activeTabIndex tb' = tb_activeTabIndex tb"
  by (auto simp add: adjustContainerScroll_def toolbar_moveContainer_def toolbar_debug_def Let_def
      split: option.splits if_splits)

lemma alignFrame_activeTabIndex:
  "tb_activeTabIndex (alignFrame position wid animate dragging tb) = tb_activeTabIndex tb"
proof -
  define tb1 where "tb1 = tb\<lparr> indicatorPosition := Some position, indicatorWidth := Some wid \<rparr>"
  have t1: "tb_activeTabIndex tb1 = tb_activeTabIndex tb" by (simp add: tb1_def)
  show ?thesis
  proof (cases "if scrollable tb1 then adjustContainerScroll (animate \<or> \<not> dragging) tb1 else Inr tb1")
    case (Inl e)
    then show ?thesis by (simp add: alignFrame_def Let_def tb1_def [symmetric] t1)
  next
    case (Inr tb2)
    then have "tb_activeTabIndex tb2 = tb_activeTabIndex tb"
      using adjustContainerScroll_activeTabIndex [of "animate \<or> \<not> dragging" tb1 tb2] t1
      by (auto split: if_splits)
    with Inr show ?thesis
      by (simp add: alignFrame_def Let_def tb1_def [symmetric] split: option.splits)
  qed
qed

lemma alignIndicator_activeTabIndex:
  "tb_activeTabIndex (alignIndicator idx animate tb) = tb_activeTabIndex tb"
  by (simp add: alignIndicator_def Let_def alignFrame_activeTabIndex toolbar_debug_def
      split: option.splits)

lemma setActiveTab_activeTabIndex:
  "tb_activeTabIndex (setActiveTab idx align animate tb)
     = js_max (Num 0) (js_min (js_round idx) (Num (real (length (buttons tb)) - 1)))"
  by (simp add: setActiveTab_def Let_def alignIndicator_activeTabIndex markButtonActive_def
      toolbar_debug_def split: option.splits)

lemma readyContainer_select1:
  "\<exists>c'. setActiveTabIndex (Num 1) True True readyContainer = Inr c'
     \<and> c_activeTabIndex c' = Some (Num 1) \<and> scrolls c' = [ScrollEl (Num 300) False 150]"
  by (simp add: setActiveTabIndex_def readyContainer_def newContainer_def Let_def
      container_debug_def debugLog_def DEFAULT_CONFIG_def moveContainerByIndex_def
      moveContainer_def indexToPosition_def js_gt_def updateActiveTabIndex_def)

text \<open>
  Claim C1: after a call of \<^verbatim>\<open>selectTab(i, animate, emit)\<close> has completed, the root's
  committed \<open>activeTabIndex\<close> is \<open>i\<close>. The method reads \<^verbatim>\<open>lastIndex\<close> from
  \<open>activeTabIndex\<close> before it moves the children and ends with
  \<^verbatim>\<open>this.activeTabIndex = lastIndex\<close>, so the committed index is never changed by it,
  while both listeners above end with \<^verbatim>\<open>this.activeTabIndex = index\<close>. On a root on tab 0
  of three, \<^verbatim>\<open>selectTab(1, true, true)\<close> moves the container and the toolbar to tab 1,
  emits \<open>{index: 1, changed: true}\<close>, and leaves \<open>activeTabIndex\<close> at 0.
\<close>

theorem selectTab_activeTabIndex_failing_input:
  "activeTabIndex readyRoot = Num 0
   \<and> (\<exists>s'. selectTab (Num 1) True True readyRoot = Some (Inr s')
          \<and> activeTabIndex s' = Num 0
          \<and> tabChange s' = [\<lparr> changed = True, index = Num 1 \<rparr>]
          \<and> map_option c_activeTabIndex (container s') = Some (Some (Num 1))
          \<and> map_option tb_activeTabIndex (toolbar s') = Some (Num 1))"
proof -
  obtain c' where c': "setActiveTabIndex (Num 1) True True readyContainer = Inr c'"
      "c_activeTabIndex c' = Some (Num 1)"
    using readyContainer_select1 by blast
  then show ?thesis
    by (simp add: selectTab_def readyRoot_def newRoot_def Let_def tabs_debug_def
        emitTabChangeEvent_def setActiveTab_activeTabIndex readyToolbar_def newToolbar_def)
qed

text \<open>
  Claim C2. On a root that has finished its initialisation, whose container (when it has
  one) has received its configuration, and whose active index is the non-negative integer
  \<open>n\<close>: \<^verbatim>\<open>selectTab(n, animate, true)\<close> completes and emits exactly one \<^verbatim>\<open>tabChange\<close>,
  with payload \<open>{index: n, changed: false}\<close>. The container emits no
  \<^verbatim>\<open>activeTabIndexChange\<close> during the call, so the root's listener for it does not run.
\<close>

theorem selectTab_same_index_emits_unchanged:
  assumes "initResolved s" and "activeTabIndex s = Num (real n)"
    and "case container s of None \<Rightarrow> True | Some c \<Rightarrow> c_config c \<noteq> None"
  shows "\<exists>s'. selectTab (Num (real n)) animate True s = Some (Inr s')
           \<and> tabChange s' = tabChange s @ [\<lparr> changed = False, index = Num (real n) \<rparr>]
           \<and> map_option activeTabIndexChange (container s')
               = map_option activeTabIndexChange (container s)"
proof (cases "container s")
  case None
  then show ?thesis
    using assms(1,2)
    by (simp add: selectTab_def Let_def tabs_debug_def emitTabChangeEvent_def split: option.splits)
next
  case (Some c)
  with assms(3) obtain cfg where "c_config c = Some cfg" by auto
  from setActiveTabIndex_Inr [OF this, of "Num (real n)" True animate]
  obtain c' where "setActiveTabIndex (Num (real n)) True animate c = Inr c'"
      "activeTabIndexChange c' = activeTabIndexChange c" by blast
  then show ?thesis
    using assms(1,2) Some
    by (simp add: selectTab_def Let_def tabs_debug_def emitTabChangeEvent_def split: option.splits)
qed


theorem selectTab_same_index_emits_unchanged_witness:
  "\<exists>s'. selectTab (Num 1) True True (readyRoot\<lparr> activeTabIndex := Num 1 \<rparr>) = Some (Inr s')
         \<and> tabChange s' = [\<lparr> changed = False, index = Num 1 \<rparr>]"
proof -
  have f: "initResolved (readyRoot\<lparr> activeTabIndex := Num 1 \<rparr>)"
    "activeTabIndex (readyRoot\<lparr> activeTabIndex := Num 1 \<rparr>) = Num (real 1)"
    "case container (readyRoot\<lparr> activeTabIndex := Num 1 \<rparr>) of
       None \<Rightarrow> True | Some c \<Rightarrow> c_config c \<noteq> None"
    "tabChange (readyRoot\<lparr> activeTabIndex := Num 1 \<rparr>) = []"
    by (simp_all add: readyRoot_def newRoot_def readyContainer_def newContainer_def)
  show ?thesis
    using selectTab_same_index_emits_unchanged [OF f(1,2,3), of True] f(4) by auto
qed

section \<open>Waiting for the container\<close>

lemma moveContainerByIndex_still_Inr: "\<exists>c'. moveContainerByIndex idx False c = Inr c'"
  by (simp add: moveContainerByIndex_def moveContainer_def Let_def)

lemma initComponent_finishes:
  assumes "\<not> (container s = None \<and> initAttempts s < maxInitRetries)"
  shows "\<exists>s'. initComponent s = Initialised s' \<and> initResolved s'"
proof (cases "container s")
  case None
  with assms show ?thesis
    by (simp add: initComponent_def Let_def tabs_debug_def)
next
  case (Some c)
  obtain c' where "moveContainerByIndex (activeTabIndex s) False c = Inr c'"
    using moveContainerByIndex_still_Inr by blast
  with Some show ?thesis
    by (simp add: initComponent_def Let_def)
qed

lemma initComponent_Rescheduled:
  "initComponent s = Rescheduled s'
     \<longleftrightarrow> container s = None \<and> initAttempts s < maxInitRetries
         \<and> s' = s\<lparr> initAttempts := Suc (initAttempts s) \<rparr>"
proof (cases "container s = None \<and> initAttempts s < maxInitRetries")
  case True
  then have "initComponent s = Rescheduled (s\<lparr> initAttempts := Suc (initAttempts s) \<rparr>)"
    by (simp add: initComponent_def)
  with True show ?thesis by auto
next
  case False
  then obtain t where "initComponent s = Initialised t"
    using initComponent_finishes by blast
  with False show ?thesis by auto
qed

lemma initFrames_bounded:
  "\<exists>n s'. initFrames between k s = (n, Initialised s') \<and> initResolved s'
     \<and> n \<le> Suc k + (maxInitRetries - initAttempts s)"
proof (induction between k s rule: initFrames.induct)
  case (1 between k s)
  show ?case
  proof (cases "container s = None \<and> initAttempts s < maxInitRetries")
    case True
    define s' where "s' = s\<lparr> initAttempts := Suc (initAttempts s) \<rparr>"
    have r: "initComponent s = Rescheduled s'"
      using True by (simp add: initComponent_Rescheduled s'_def)
    from "1.IH" [OF r] obtain n t where
      "initFrames between (Suc k) ((between k s')\<lparr> initAttempts := initAttempts s' \<rparr>) = (n, Initialised t)"
      "initResolved t"
      "n \<le> Suc (Suc k) + (maxInitRetries - initAttempts ((between k s')\<lparr> initAttempts := initAttempts s' \<rparr>))"
      by blast
    moreover have "initFrames between k s
        = initFrames between (Suc k) ((between k s')\<lparr> initAttempts := initAttempts s' \<rparr>)"
      using r by simp
    ultimately show ?thesis
      using True by (auto simp add: s'_def)
  next
    case False
    then obtain t where "initComponent s = Initialised t" "initResolved t"
      using initComponent_finishes by blast
    then show ?thesis by simp
  qed
qed


lemma debugLog_Some:
  "debugLog (Some c) tag v con = (if debug c then con @ [(tag, v)] else con)"
  by (simp add: debugLog_def)

lemma tabs_debug_frame:
  "container (tabs_debug v s) = container s"
  "toolbar (tabs_debug v s) = toolbar s"
  "r_config (tabs_debug v s) = r_config s"
  "initAttempts (tabs_debug v s) = initAttempts s"
  "activeTabIndex (tabs_debug v s) = activeTabIndex s"
  "console (tabs_debug v s) = (if debug (r_config s) then console s @ [(''tabs'', v)] else console s)"
  by (simp_all add: tabs_debug_def debugLog_Some)

lemma propagateConfig_frame:
  "container s = None \<Longrightarrow> container (propagateConfig s) = None"
  "r_config (propagateConfig s) = r_config s"
  "initAttempts (propagateConfig s) = initAttempts s"
  "console (propagateConfig s) = console s"
  by (simp_all add: propagateConfig_def)

lemma setupEventListeners_frame:
  "initAttempts (setupEventListeners s) = initAttempts s"
  "if debug (r_config s) then set (console s) \<subseteq> set (console (setupEventListeners s))
   else console (setupEventListeners s) = console s"
  by (auto simp add: setupEventListeners_def Let_def tabs_debug_frame split: option.splits)

lemma initComponent_exhausted:
  assumes "container s = None" and "maxInitRetries \<le> initAttempts s"
  shows "\<exists>s'. initComponent s = Initialised s' \<and> initResolved s'
           \<and> initAttempts s' = Suc (initAttempts s)
           \<and> (if debug (r_config s)
               then (''tabs'', initDiagnostic) \<in> set (console s')
               else console s' = console s)"
proof -
  define s1 where "s1 = tabs_debug initDiagnostic (s\<lparr> initAttempts := Suc (initAttempts s) \<rparr>)"
  define s3 where "s3 = (if js_gt (activeTabIndex s1) (Num 0)
                         then (case toolbar s1 of
                                 None \<Rightarrow> s1
                               | Some tb \<Rightarrow>
                                   s1\<lparr> toolbar := Some (setActiveTab (activeTabIndex s1) True None tb) \<rparr>)
                         else s1)"
  define s4 where "s4 = propagateConfig s3"
  have s1: "container s1 = None" "r_config s1 = r_config s" "initAttempts s1 = Suc (initAttempts s)"
      "console s1 = (if debug (r_config s) then console s @ [(''tabs'', initDiagnostic)] else console s)"
    using assms(1) by (simp_all add: s1_def tabs_debug_frame)
  have s3: "container s3 = None" "r_config s3 = r_config s" "initAttempts s3 = Suc (initAttempts s)"
      "console s3 = console s1"
    using s1 by (simp_all add: s3_def split: option.splits)
  have s4: "r_config s4 = r_config s" "initAttempts s4 = Suc (initAttempts s)" "console s4 = console s1"
    using s3 by (simp_all add: s4_def propagateConfig_frame)
  have "initComponent s = Initialised ((setupEventListeners s4)\<lparr> initResolved := True \<rparr>)"
    using assms s1(1)
    by (simp add: initComponent_def Let_def s1_def [symmetric] s3_def s4_def split: option.splits)
  moreover have "if debug (r_config s)
      then (''tabs'', initDiagnostic) \<in> set (console (setupEventListeners s4))
      else console (setupEventListeners s4) = console s"
    using setupEventListeners_frame(2) [of s4] s4 s1(4) by (auto split: if_splits)
  ultimately show ?thesis
    using s4 by (simp add: setupEventListeners_frame(1))
qed

lemma initFrames_absent:
  "container s = None \<Longrightarrow> initAttempts s \<le> maxInitRetries \<Longrightarrow>
   d = maxInitRetries - initAttempts s \<Longrightarrow>
   initFrames (\<lambda>k s. s) k s = (Suc k + d, initComponent (s\<lparr> initAttempts := maxInitRetries \<rparr>))"
proof (induction d arbitrary: k s)
  case 0
  then have e: "initAttempts s = maxInitRetries" by simp
  then obtain t where "initComponent s = Initialised t"
    using initComponent_finishes [of s] by auto
  moreover have "s\<lparr> initAttempts := maxInitRetries \<rparr> = s"
    using e by simp
  ultimately show ?case by simp
next
  case (Suc d)
  define s' where "s' = s\<lparr> initAttempts := Suc (initAttempts s) \<rparr>"
  have r: "initComponent s = Rescheduled s'"
    using Suc.prems by (simp add: initComponent_Rescheduled s'_def)
  have "initFrames (\<lambda>k s. s) (Suc k) s'
          = (Suc (Suc k) + d, initComponent (s'\<lparr> initAttempts := maxInitRetries \<rparr>))"
    using Suc.prems by (intro Suc.IH) (simp_all add: s'_def)
  moreover have "s'\<lparr> initAttempts := initAttempts s' \<rparr> = s'" by simp
  moreover have "s'\<lparr> initAttempts := maxInitRetries \<rparr> = s\<lparr> initAttempts := maxInitRetries \<rparr>"
    by (simp add: s'_def)
  ultimately show ?case using r by simp
qed

text \<open>
  Claim C9 says that the retry loop of \<^verbatim>\<open>initComponent\<close> is bounded by
  \<^verbatim>\<open>maxInitRetries\<close> and that, once the attempts exceed the bound, it stops retrying, logs
  a diagnostic and ends. The diagnostic goes through \<^verbatim>\<open>debugLog\<close>, which prints only when
  the \<^verbatim>\<open>debug\<close> option is set, and the default configuration leaves it unset: a new
  root whose container never appears ends its initialisation at the 1001st call with
  nothing printed.
\<close>

theorem initComponent_silent_counterexample:
  "debug (r_config newRoot) = False
   \<and> (\<exists>s'. initFrames (\<lambda>k s. s) 0 newRoot = (1001, Initialised s')
          \<and> initAttempts s' = 1001 \<and> console s' = [])"
proof -
  have "initFrames (\<lambda>k s. s) 0 newRoot
          = (Suc 0 + 1000, initComponent (newRoot\<lparr> initAttempts := maxInitRetries \<rparr>))"
    by (rule initFrames_absent) (simp_all add: newRoot_def maxInitRetries_def)
  moreover have "\<exists>s'. initComponent (newRoot\<lparr> initAttempts := maxInitRetries \<rparr>) = Initialised s'
      \<and> initAttempts s' = 1001 \<and> console s' = []"
    using initComponent_exhausted [of "newRoot\<lparr> initAttempts := maxInitRetries \<rparr>"]
    by (auto simp add: newRoot_def maxInitRetries_def DEFAULT_CONFIG_def)
  ultimately show ?thesis
    by (auto simp add: newRoot_def DEFAULT_CONFIG_def)
qed

text \<open>
  Claim C9, amended. Whatever happens between the frames, the chain of calls of
  \<^verbatim>\<open>initComponent\<close> ends, after at most \<open>maxInitRetries + 1 = 1001\<close> calls (at most 1000
  re-schedulings), with the initialisation run to its end and \<^verbatim>\<open>initPromise\<close> resolved.
  A call re-schedules itself while the container is absent and fewer than
  \<^verbatim>\<open>maxInitRetries\<close> attempts have been counted; with the container absent and the count
  at the bound, the call counts one more attempt, does not re-schedule, hands the
  diagnostic to the debug log (which prints it when the \<^verbatim>\<open>debug\<close> option is set, and
  prints nothing otherwise), and runs to its end.
\<close>

theorem initComponent_retries_bounded:
  "(\<exists>n s'. initFrames between 0 s = (n, Initialised s') \<and> initResolved s'
       \<and> n \<le> Suc maxInitRetries)
   \<and> (container s = None \<and> initAttempts s < maxInitRetries \<longrightarrow>
        initComponent s = Rescheduled (s\<lparr> initAttempts := Suc (initAttempts s) \<rparr>))
   \<and> (container s = None \<and> maxInitRetries \<le> initAttempts s \<longrightarrow>
        (\<exists>s'. initComponent s = Initialised s' \<and> initResolved s'
           \<and> initAttempts s' = Suc (initAttempts s)
           \<and> (if debug (r_config s)
               then (''tabs'', initDiagnostic) \<in> set (console s')
               else console s' = console s)))"
proof -
  obtain n s' where "initFrames between 0 s = (n, Initialised s')" "initResolved s'"
      "n \<le> Suc 0 + (maxInitRetries - initAttempts s)"
    using initFrames_bounded [of between 0 s] by blast
  then have a: "\<exists>n s'. initFrames between 0 s = (n, Initialised s') \<and> initResolved s'
       \<and> n \<le> Suc maxInitRetries"
    by auto
  have b: "container s = None \<and> initAttempts s < maxInitRetries \<longrightarrow>
        initComponent s = Rescheduled (s\<lparr> initAttempts := Suc (initAttempts s) \<rparr>)"
    by (simp add: initComponent_Rescheduled)
  from a b initComponent_exhausted [of s] show ?thesis by blast
qed

theorem initComponent_retries_bounded_witness:
  "container exhaustedRoot = None \<and> maxInitRetries \<le> initAttempts exhaustedRoot
   \<and> (\<exists>s'. initComponent exhaustedRoot = Initialised s' \<and> initResolved s'
          \<and> initAttempts s' = 1001
          \<and> (''tabs'', initDiagnostic) \<in> set (console s'))"
proof -
  have f: "container exhaustedRoot = None" "maxInitRetries \<le> initAttempts exhaustedRoot"
    "debug (r_config exhaustedRoot)" "initAttempts exhaustedRoot = 1000"
    by (simp_all add: exhaustedRoot_def newRoot_def maxInitRetries_def)
  show ?thesis
    using initComponent_retries_bounded [of "\<lambda>k s. s" exhaustedRoot] f by auto
qed

end
